theory Spec2Isabelle
  imports Complex_Main "HOL-Library.Word" "HOL-Library.Sublist"
begin

unbundle bit_operations_syntax

section \<open>Python values\<close>

text \<open>
  A Python \<open>str\<close> is a sequence of Unicode code points, so a character is a natural
  number and \<open>len\<close> is \<open>length\<close>. ASCII literals of the source are written with
  \<open>py_str\<close>; the emoji of the report are written as their code points.
\<close>

type_synonym pychar = nat
type_synonym pystr = "pychar list"
type_synonym byte = "8 word"
type_synonym w32 = "32 word"

definition py_str :: "string \<Rightarrow> pystr" where
  "py_str s = map of_char s"

text \<open>The exceptions that can leave the functions of \<open>password_checker.py\<close>.\<close>

datatype error =
    UnicodeEncodeError  \<comment> \<open>\<open>str.encode('utf-8')\<close> on a lone surrogate\<close>
  | RequestException    \<comment> \<open>\<open>requests.get\<close> could not complete the request\<close>
  | ValueError          \<comment> \<open>tuple unpacking of a list that has not exactly two items\<close>
  | OverflowError       \<comment> \<open>float result out of range\<close>

section \<open>\<open>str.encode('utf-8')\<close>\<close>

definition is_surrogate :: "pychar \<Rightarrow> bool" where
  "is_surrogate c = (0xD800 \<le> c \<and> c \<le> 0xDFFF)"

definition utf8_char :: "pychar \<Rightarrow> byte list" where
  "utf8_char c =
     (if c < 0x80 then [of_nat c]
      else if c < 0x800 then [of_nat (0xC0 + c div 64), of_nat (0x80 + c mod 64)]
      else if c < 0x10000 then
        [of_nat (0xE0 + c div 4096), of_nat (0x80 + c div 64 mod 64), of_nat (0x80 + c mod 64)]
      else
        [of_nat (0xF0 + c div 262144), of_nat (0x80 + c div 4096 mod 64),
         of_nat (0x80 + c div 64 mod 64), of_nat (0x80 + c mod 64)])"

fun encode_utf8 :: "pystr \<Rightarrow> error + byte list" where
  "encode_utf8 [] = Inr []"
| "encode_utf8 (c # cs) =
     (if is_surrogate c then Inl UnicodeEncodeError
      else case encode_utf8 cs of
             Inl e \<Rightarrow> Inl e
           | Inr bs \<Rightarrow> Inr (utf8_char c @ bs))"

section \<open>\<open>hashlib.sha1\<close>\<close>

text \<open>
  The digest function is the library's; it is written out here after FIPS 180-4 so that
  the digests in the source's blacklist can be recomputed rather than assumed.
\<close>

definition rotl :: "nat \<Rightarrow> w32 \<Rightarrow> w32" where
  "rotl n x = push_bit n x OR drop_bit (32 - n) x"

definition be_bytes64 :: "nat \<Rightarrow> byte list" where
  "be_bytes64 n = map (\<lambda>s. ucast (drop_bit s (of_nat n :: 64 word))) [56, 48, 40, 32, 24, 16, 8, 0]"

definition sha1_pad :: "byte list \<Rightarrow> byte list" where
  "sha1_pad m =
     m @ [0x80] @ replicate ((55 + 64 - length m mod 64) mod 64) 0 @ be_bytes64 (8 * length m)"

fun be_words :: "byte list \<Rightarrow> w32 list" where
  "be_words (a # b # c # d # r) =
     (push_bit 24 (ucast a) OR push_bit 16 (ucast b) OR push_bit 8 (ucast c) OR ucast d)
       # be_words r"
| "be_words _ = []"

text \<open>
  The message schedule, produced from a window of the sixteen most recent words:
  \<open>W\<^sub>t = rotl 1 (W\<^sub>t\<^sub>-\<^sub>3 XOR W\<^sub>t\<^sub>-\<^sub>8 XOR W\<^sub>t\<^sub>-\<^sub>1\<^sub>4 XOR W\<^sub>t\<^sub>-\<^sub>1\<^sub>6)\<close>.
\<close>

fun schedule :: "nat \<Rightarrow> w32 list \<Rightarrow> w32 list" where
  "schedule 0 win = []"
| "schedule (Suc n) [] = []"
| "schedule (Suc n) (w0 # rest) =
     w0 # schedule n (rest @ [rotl 1 (rest ! 12 XOR rest ! 7 XOR rest ! 1 XOR w0)])"

type_synonym sha_state = "w32 \<times> w32 \<times> w32 \<times> w32 \<times> w32"

definition sha1_f :: "nat \<Rightarrow> w32 \<Rightarrow> w32 \<Rightarrow> w32 \<Rightarrow> w32" where
  "sha1_f t b c d =
     (if t < 20 then (b AND c) OR (NOT b AND d)
      else if t < 40 then b XOR c XOR d
      else if t < 60 then (b AND c) OR (b AND d) OR (c AND d)
      else b XOR c XOR d)"

definition sha1_k :: "nat \<Rightarrow> w32" where
  "sha1_k t =
     (if t < 20 then 0x5A827999 else if t < 40 then 0x6ED9EBA1
      else if t < 60 then 0x8F1BBCDC else 0xCA62C1D6)"

fun sha1_rounds :: "nat \<Rightarrow> w32 list \<Rightarrow> sha_state \<Rightarrow> sha_state" where
  "sha1_rounds t [] s = s"
| "sha1_rounds t (w # ws) (a, b, c, d, e) =
     sha1_rounds (t + 1) ws (rotl 5 a + sha1_f t b c d + e + sha1_k t + w, a, rotl 30 b, c, d)"

definition sha1_block :: "sha_state \<Rightarrow> w32 list \<Rightarrow> sha_state" where
  "sha1_block h w16 =
     (case h of (h0, h1, h2, h3, h4) \<Rightarrow>
        (case sha1_rounds 0 (schedule 80 w16) h of (a, b, c, d, e) \<Rightarrow>
           (h0 + a, h1 + b, h2 + c, h3 + d, h4 + e)))"

function sha1_blocks :: "sha_state \<Rightarrow> w32 list \<Rightarrow> sha_state" where
  "sha1_blocks h ws =
     (if length ws < 16 then h
      else sha1_blocks (sha1_block h (take 16 ws)) (drop 16 ws))"
  by pat_completeness auto
termination
  by (relation "measure (\<lambda>(h, ws). length ws)") auto

declare sha1_blocks.simps [simp del]

definition hashlib_sha1 :: "byte list \<Rightarrow> w32 list" where
  "hashlib_sha1 m =
     (case sha1_blocks (0x67452301, 0xEFCDAB89, 0x98BADCFE, 0x10325476, 0xC3D2E1F0)
             (be_words (sha1_pad m)) of
        (a, b, c, d, e) \<Rightarrow> [a, b, c, d, e])"

definition hex_digit :: "w32 \<Rightarrow> pychar" where
  "hex_digit d = py_str ''0123456789abcdef'' ! unat d"

definition hex_word :: "w32 \<Rightarrow> pystr" where
  "hex_word w = map (\<lambda>s. hex_digit (drop_bit s w AND 0xF)) [28, 24, 20, 16, 12, 8, 4, 0]"

definition hexdigest :: "w32 list \<Rightarrow> pystr" where
  "hexdigest ws = concat (map hex_word ws)"

text \<open>\<open>str.upper\<close>, on the ASCII text that \<open>hexdigest\<close> returns.\<close>

definition ascii_upper :: "pystr \<Rightarrow> pystr" where
  "ascii_upper s = map (\<lambda>c. if 97 \<le> c \<and> c \<le> 122 then c - 32 else c) s"

text \<open>\<open>hashlib.sha1(password.encode('utf-8')).hexdigest().upper()\<close>\<close>

definition sha1_hex_upper :: "pystr \<Rightarrow> error + pystr" where
  "sha1_hex_upper password =
     (case encode_utf8 password of
        Inl e \<Rightarrow> Inl e
      | Inr bs \<Rightarrow> Inr (ascii_upper (hexdigest (hashlib_sha1 bs))))"

section \<open>Blacklist\<close>

definition HASHED_BLACKLIST :: "pystr set" where
  "HASHED_BLACKLIST =
     {py_str ''5BAA61E4C9B93F3F0682250B6CF8331B7EE68FD8'',
      py_str ''7C4A8D09CA3762AF61E59520943DC26494F8941B''}"

definition is_in_hashed_blacklist :: "pystr \<Rightarrow> error + bool" where
  "is_in_hashed_blacklist password =
     (case sha1_hex_upper password of
        Inl e \<Rightarrow> Inl e
      | Inr sha1 \<Rightarrow> Inr (sha1 \<in> HASHED_BLACKLIST))"

section \<open>Library tables\<close>

text \<open>
  The Unicode character database belongs to the interpreter, not to the repository.
  What it says about ASCII is fixed below; the rest is a parameter: the predicates on
  non-ASCII code points and the lower-case mapping (of the character at a position of a
  string, since \<open>str.lower\<close> looks at the context of a capital sigma).
\<close>

record unicode_db =
  uc_islower :: "pychar \<Rightarrow> bool"
  uc_isupper :: "pychar \<Rightarrow> bool"
  uc_isdigit :: "pychar \<Rightarrow> bool"
  uc_isdecimal :: "pychar \<Rightarrow> bool"
  uc_isspace :: "pychar \<Rightarrow> bool"
  uc_lower :: "pystr \<Rightarrow> nat \<Rightarrow> pystr"

definition islower :: "unicode_db \<Rightarrow> pychar \<Rightarrow> bool" where
  "islower ucd c = (if c < 128 then 97 \<le> c \<and> c \<le> 122 else uc_islower ucd c)"

definition isupper :: "unicode_db \<Rightarrow> pychar \<Rightarrow> bool" where
  "isupper ucd c = (if c < 128 then 65 \<le> c \<and> c \<le> 90 else uc_isupper ucd c)"

definition isdigit :: "unicode_db \<Rightarrow> pychar \<Rightarrow> bool" where
  "isdigit ucd c = (if c < 128 then 48 \<le> c \<and> c \<le> 57 else uc_isdigit ucd c)"

text \<open>The class \<open>\d\<close> of \<open>re\<close> on a \<open>str\<close> pattern: the decimal digits of Unicode.\<close>

definition isdecimal :: "unicode_db \<Rightarrow> pychar \<Rightarrow> bool" where
  "isdecimal ucd c = (if c < 128 then 48 \<le> c \<and> c \<le> 57 else uc_isdecimal ucd c)"

definition isspace :: "unicode_db \<Rightarrow> pychar \<Rightarrow> bool" where
  "isspace ucd c =
     (if c < 128 then (9 \<le> c \<and> c \<le> 13) \<or> (28 \<le> c \<and> c \<le> 32) else uc_isspace ucd c)"

fun lower_from :: "unicode_db \<Rightarrow> pystr \<Rightarrow> nat \<Rightarrow> pystr \<Rightarrow> pystr" where
  "lower_from ucd s i [] = []"
| "lower_from ucd s i (c # cs) =
     (if c < 128 then [if 65 \<le> c \<and> c \<le> 90 then c + 32 else c] else uc_lower ucd s i)
       @ lower_from ucd s (i + 1) cs"

definition lower :: "unicode_db \<Rightarrow> pystr \<Rightarrow> pystr" where
  "lower ucd s = lower_from ucd s 0 s"

section \<open>String operations\<close>

text \<open>\<open>needle in haystack\<close> on strings.\<close>

fun startswith :: "pystr \<Rightarrow> pystr \<Rightarrow> bool" where
  "startswith [] s = True"
| "startswith (n # ns) [] = False"
| "startswith (n # ns) (h # hs) = (n = h \<and> startswith ns hs)"

fun py_in :: "pystr \<Rightarrow> pystr \<Rightarrow> bool" where
  "py_in needle [] = (needle = [])"
| "py_in needle (h # hs) = (startswith needle (h # hs) \<or> py_in needle hs)"

text \<open>\<open>s.split(sep)\<close> with a one-character separator: never an empty list.\<close>

fun split_on :: "pychar \<Rightarrow> pystr \<Rightarrow> pystr \<Rightarrow> pystr list" where
  "split_on sep cur [] = [cur]"
| "split_on sep cur (c # cs) =
     (if c = sep then cur # split_on sep [] cs else split_on sep (cur @ [c]) cs)"

text \<open>\<open>s.split()\<close>: the maximal runs of characters that are not whitespace.\<close>

fun split_ws :: "unicode_db \<Rightarrow> pystr \<Rightarrow> pystr \<Rightarrow> pystr list" where
  "split_ws ucd cur [] = (if cur = [] then [] else [cur])"
| "split_ws ucd cur (c # cs) =
     (if isspace ucd c then (if cur = [] then split_ws ucd [] cs else cur # split_ws ucd [] cs)
      else split_ws ucd (cur @ [c]) cs)"

text \<open>
  \<open>s.splitlines()\<close>: lines end at \<open>\n\<close>, \<open>\r\<close>, \<open>\r\n\<close>, \<open>\v\<close>, \<open>\f\<close>, the
  separators \<open>0x1C\<close> to \<open>0x1E\<close>, \<open>0x85\<close>, \<open>0x2028\<close> and \<open>0x2029\<close>; a boundary at
  the end opens no further line.
\<close>

definition is_linebreak :: "pychar \<Rightarrow> bool" where
  "is_linebreak c =
     ((10 \<le> c \<and> c \<le> 13) \<or> (28 \<le> c \<and> c \<le> 30) \<or> c = 0x85 \<or> c = 0x2028 \<or> c = 0x2029)"

fun splitlines_from :: "pystr \<Rightarrow> pystr \<Rightarrow> pystr list" where
  "splitlines_from cur [] = (if cur = [] then [] else [cur])"
| "splitlines_from cur [c] =
     (if is_linebreak c then [cur] else [cur @ [c]])"
| "splitlines_from cur (c # d # cs) =
     (if c = 13 \<and> d = 10 then cur # splitlines_from [] cs
      else if is_linebreak c then cur # splitlines_from [] (d # cs)
      else splitlines_from (cur @ [c]) (d # cs))"

definition splitlines :: "pystr \<Rightarrow> pystr list" where
  "splitlines s = splitlines_from [] s"

text \<open>\<open>sep.join(items)\<close>\<close>

fun join :: "pystr \<Rightarrow> pystr list \<Rightarrow> pystr" where
  "join sep [] = []"
| "join sep [x] = x"
| "join sep (x # y # ys) = x @ sep @ join sep (y # ys)"

text \<open>\<open>str\<close> of an integer.\<close>

function str_nat :: "nat \<Rightarrow> pystr" where
  "str_nat n = (if n < 10 then [48 + n] else str_nat (n div 10) @ [48 + n mod 10])"
  by pat_completeness auto
termination
  by (relation "measure (\<lambda>n. n)") auto

declare str_nat.simps [simp del]

definition str_int :: "int \<Rightarrow> pystr" where
  "str_int i = (if i < 0 then 45 # str_nat (nat (- i)) else str_nat (nat i))"

section \<open>Breach check\<close>

text \<open>
  \<open>requests.get(url)\<close> either raises or returns a response, of which the code reads
  \<open>status_code\<close> and \<open>text\<close>. The network is a parameter: a function from the URL to
  that outcome.
\<close>

datatype http_result = Raises | Response int pystr

type_synonym transport = "pystr \<Rightarrow> http_result"

text \<open>
  The loop \<open>for hash_suffix, count in hashes\<close> over the lazily split lines: an item
  that has not exactly two parts fails to unpack when the loop reaches it.
\<close>

fun match_suffix :: "pystr \<Rightarrow> pystr list list \<Rightarrow> error + bool" where
  "match_suffix suffix' [] = Inr False"
| "match_suffix suffix' (item # hashes) =
     (case item of
        [hash_suffix, count] \<Rightarrow>
          if hash_suffix = suffix' then Inr True else match_suffix suffix' hashes
      | _ \<Rightarrow> Inl ValueError)"

definition is_password_breached :: "transport \<Rightarrow> pystr \<Rightarrow> error + bool" where
  "is_password_breached requests_get password =
     (case sha1_hex_upper password of
        Inl e \<Rightarrow> Inl e
      | Inr sha1_hash \<Rightarrow>
          (let prefix' = take 5 sha1_hash;
               suffix' = drop 5 sha1_hash;
               url = py_str ''https://api.pwnedpasswords.com/range/'' @ prefix'
           in case requests_get url of
                Raises \<Rightarrow> Inl RequestException
              | Response status_code text \<Rightarrow>
                  if status_code \<noteq> 200 then Inr False
                  else match_suffix suffix' (map (split_on 58 []) (splitlines text))))"

section \<open>Entropy and crack time\<close>

text \<open>
  A Python number is an \<open>int\<close> or a \<open>float\<close>. Floats are idealised as reals, except
  that a result too large for a double raises, as it does in the interpreter. A double
  carries a rounding error of the last place, so where the exact value lies within that
  error of a tie of \<open>round\<close> or of a threshold of the crack-time text, the interpreter
  may print the neighbouring value; the theorems below do not rest on such values.
\<close>

datatype pynum = PyInt int | PyFloat real

fun num_val :: "pynum \<Rightarrow> real" where
  "num_val (PyInt i) = real_of_int i"
| "num_val (PyFloat x) = x"

text \<open>\<open>round(x)\<close>: to the nearest integer, a tie to the even one.\<close>

definition py_round :: "real \<Rightarrow> int" where
  "py_round x =
     (let f = \<lfloor>x\<rfloor>; d = x - real_of_int f
      in if d < 1 / 2 then f else if 1 / 2 < d then f + 1 else if even f then f else f + 1)"

text \<open>\<open>round(x, 2)\<close>\<close>

definition py_round2 :: "real \<Rightarrow> real" where
  "py_round2 x = real_of_int (py_round (x * 100)) / 100"

definition SYMBOLS :: pystr where
  "SYMBOLS = py_str ''!@#$%^&*(),.?'' @ [0x22] @ py_str '':{}|<>''"

definition possible_characters :: "unicode_db \<Rightarrow> pystr \<Rightarrow> nat" where
  "possible_characters ucd password =
     (let n0 = 0;
          n1 = (if list_ex (islower ucd) password then n0 + 26 else n0);
          n2 = (if list_ex (isupper ucd) password then n1 + 26 else n1);
          n3 = (if list_ex (isdigit ucd) password then n2 + 10 else n2);
          n4 = (if list_ex (\<lambda>c. c \<in> set SYMBOLS) password then n3 + length SYMBOLS else n3);
          n5 = (if list_ex (isspace ucd) password then n4 + 1 else n4)
      in n5)"

definition calculate_entropy :: "unicode_db \<Rightarrow> pystr \<Rightarrow> pynum" where
  "calculate_entropy ucd password =
     (if possible_characters ucd password = 0 then PyInt 0
      else PyFloat (py_round2 (log 2 (real (possible_characters ucd password))
                                 * real (length password))))"

text \<open>
  \<open>2 ** entropy\<close> raises \<open>OverflowError\<close> from \<open>2 ** 1024.0\<close> on, and so does the
  division of the integer \<open>2 ** 1024\<close> by a float; every smaller exponent gives a double.
\<close>

definition crack_time_text :: "real \<Rightarrow> pystr" where
  "crack_time_text seconds =
     (if seconds < 1 then py_str ''less than 1 second''
      else if seconds < 60 then str_int (py_round seconds) @ py_str '' seconds''
      else if seconds < 3600 then str_int (py_round (seconds / 60)) @ py_str '' minutes''
      else if seconds < 86400 then str_int (py_round (seconds / 3600)) @ py_str '' hours''
      else if seconds < 31536000 then str_int (py_round (seconds / 86400)) @ py_str '' days''
      else if seconds < 31536000 * 100 then
        str_int (py_round (seconds / 31536000)) @ py_str '' years''
      else py_str ''centuries or more'')"

definition estimate_crack_time :: "pynum \<Rightarrow> error + pystr" where
  "estimate_crack_time entropy =
     (if 1024 \<le> num_val entropy then Inl OverflowError
      else (let guesses = 2 powr num_val entropy;
                seconds = guesses / 10 ^ 10
            in Inr (crack_time_text seconds)))"

section \<open>Strength evaluator\<close>

text \<open>The two variables that \<open>check_password_strength\<close> updates rule after rule.\<close>

record eval_state =
  score :: int
  feedback :: "pystr list"

definition add_point :: "eval_state \<Rightarrow> eval_state" where
  "add_point st = st\<lparr>score := score st + 1\<rparr>"

definition append_feedback :: "pystr \<Rightarrow> eval_state \<Rightarrow> eval_state" where
  "append_feedback msg st = st\<lparr>feedback := feedback st @ [msg]\<rparr>"

definition MSG_LENGTH :: pystr where
  "MSG_LENGTH = py_str ''Password must be at least 12 characters long.''"

definition MSG_UPPER :: pystr where
  "MSG_UPPER = py_str ''Add at least one uppercase letter.''"

definition MSG_LOWER :: pystr where
  "MSG_LOWER = py_str ''Add at least one lowercase letter.''"

definition MSG_NUMBER :: pystr where
  "MSG_NUMBER = py_str ''Include at least one number.''"

definition MSG_SPECIAL :: pystr where
  "MSG_SPECIAL = py_str ''Include at least one special character.''"

definition MSG_USERNAME :: pystr where
  "MSG_USERNAME = py_str ''Don'' @ [39] @ py_str ''t use your username or email in the password.''"

definition MSG_BLACKLIST :: pystr where
  "MSG_BLACKLIST = py_str ''This password is blacklisted (too common).''"

definition MSG_PASSPHRASE :: pystr where
  "MSG_PASSPHRASE =
     [0x1F44D] @ py_str '' Good! You'' @ [39] @ py_str ''re using a passphrase.''"

definition MSG_BREACH :: pystr where
  "MSG_BREACH = [0x26A0, 0xFE0F] @ py_str '' This password has appeared in a known data breach.''"

text \<open>Rule 1: \<open>len(password) >= 12\<close>\<close>

definition rule1 :: "pystr \<Rightarrow> eval_state \<Rightarrow> eval_state" where
  "rule1 password st =
     (if 12 \<le> length password then add_point st else append_feedback MSG_LENGTH st)"

text \<open>Rules 2 to 5: \<open>re.search\<close> of a one-character class.\<close>

definition rule2 :: "pystr \<Rightarrow> eval_state \<Rightarrow> eval_state" where
  "rule2 password st =
     (if list_ex (\<lambda>c. 65 \<le> c \<and> c \<le> 90) password then add_point st
      else append_feedback MSG_UPPER st)"

definition rule3 :: "pystr \<Rightarrow> eval_state \<Rightarrow> eval_state" where
  "rule3 password st =
     (if list_ex (\<lambda>c. 97 \<le> c \<and> c \<le> 122) password then add_point st
      else append_feedback MSG_LOWER st)"

definition rule4 :: "unicode_db \<Rightarrow> pystr \<Rightarrow> eval_state \<Rightarrow> eval_state" where
  "rule4 ucd password st =
     (if list_ex (isdecimal ucd) password then add_point st
      else append_feedback MSG_NUMBER st)"

definition rule5 :: "pystr \<Rightarrow> eval_state \<Rightarrow> eval_state" where
  "rule5 password st =
     (if list_ex (\<lambda>c. c \<in> set SYMBOLS) password then add_point st
      else append_feedback MSG_SPECIAL st)"

text \<open>
  Rule 6. \<open>email\<close> is \<open>None\<close> or a string; \<open>email and ...\<close> is false for \<open>None\<close> and
  for the empty string. \<open>split('@')[0]\<close> is the first item of a list that is never empty.
\<close>

definition uses_username_or_email :: "unicode_db \<Rightarrow> pystr \<Rightarrow> pystr \<Rightarrow> pystr option \<Rightarrow> bool" where
  "uses_username_or_email ucd username password email =
     (py_in (lower ucd username) (lower ucd password) \<or>
      (case email of
         None \<Rightarrow> False
       | Some em \<Rightarrow>
           em \<noteq> [] \<and> py_in (hd (split_on 64 [] (lower ucd em))) (lower ucd password)))"

definition rule6 :: "unicode_db \<Rightarrow> pystr \<Rightarrow> pystr \<Rightarrow> pystr option \<Rightarrow> eval_state \<Rightarrow> eval_state" where
  "rule6 ucd username password email st =
     (if uses_username_or_email ucd username password email
      then append_feedback MSG_USERNAME st
      else add_point st)"

definition rule7 :: "pystr \<Rightarrow> eval_state \<Rightarrow> error + eval_state" where
  "rule7 password st =
     (case is_in_hashed_blacklist password of
        Inl e \<Rightarrow> Inl e
      | Inr blacklisted \<Rightarrow>
          Inr (if blacklisted then append_feedback MSG_BLACKLIST st else add_point st))"

text \<open>Rule 8 has no \<open>else\<close>.\<close>

definition rule8 :: "unicode_db \<Rightarrow> pystr \<Rightarrow> eval_state \<Rightarrow> eval_state" where
  "rule8 ucd password st =
     (if 4 \<le> length (split_ws ucd [] password) \<and>
         list_all (\<lambda>word. 3 < length word) (split_ws ucd [] password)
      then append_feedback MSG_PASSPHRASE (add_point st)
      else st)"

definition rule9 :: "transport \<Rightarrow> pystr \<Rightarrow> eval_state \<Rightarrow> error + eval_state" where
  "rule9 requests_get password st =
     (case is_password_breached requests_get password of
        Inl e \<Rightarrow> Inl e
      | Inr breached \<Rightarrow>
          Inr (if breached then append_feedback MSG_BREACH st else add_point st))"

text \<open>The state after the nine rules, or the exception that rule 7 or rule 9 raised.\<close>

definition run_rules ::
  "unicode_db \<Rightarrow> transport \<Rightarrow> pystr \<Rightarrow> pystr \<Rightarrow> pystr option \<Rightarrow> error + eval_state" where
  "run_rules ucd requests_get username password email =
     (let st0 = \<lparr>score = 0, feedback = []\<rparr>;
          st1 = rule1 password st0;
          st2 = rule2 password st1;
          st3 = rule3 password st2;
          st4 = rule4 ucd password st3;
          st5 = rule5 password st4;
          st6 = rule6 ucd username password email st5
      in case rule7 password st6 of
           Inl e \<Rightarrow> Inl e
         | Inr st7 \<Rightarrow> rule9 requests_get password (rule8 ucd password st7))"

text \<open>
  \<open>repr\<close> of a float, for the values that reach it: the results of \<open>round(x, 2)\<close>
  that are not negative and below \<open>1024\<close>. It prints the integer part, a point, and one
  decimal or, when the second one is not zero, two.
\<close>

definition float_repr :: "real \<Rightarrow> pystr" where
  "float_repr x =
     (let k = nat (py_round (x * 100))
      in str_nat (k div 100) @ [46] @
         (if k mod 10 = 0 then [48 + k div 10 mod 10]
          else [48 + k div 10 mod 10, 48 + k mod 10]))"

text \<open>\<open>f"{entropy}"\<close>\<close>

fun format_num :: "pynum \<Rightarrow> pystr" where
  "format_num (PyInt i) = str_int i"
| "format_num (PyFloat x) = float_repr x"

definition entropy_line :: "pynum \<Rightarrow> pystr" where
  "entropy_line entropy =
     [0x1F510] @ py_str '' Entropy: '' @ format_num entropy @ py_str '' bits''"

definition crack_time_line :: "pystr \<Rightarrow> pystr" where
  "crack_time_line crack_time =
     [0x23F1, 0xFE0F] @ py_str '' Estimated crack time: '' @ crack_time"

text \<open>The final classification of the score (the last six lines of the function).\<close>

definition final_report :: "int \<Rightarrow> pystr list \<Rightarrow> pystr" where
  "final_report sc fb =
     (if 6 \<le> sc then [0x2705] @ py_str '' Strong password!'' @ [10] @ join [10] fb
      else if 4 \<le> sc then
        [0x26A0, 0xFE0F] @ py_str '' Moderate password.'' @ [10] @ py_str '' Consider improving:''
          @ [10] @ join [10] fb
      else [0x274C] @ py_str '' Weak password:'' @ [10] @ join [10] fb)"

definition check_password_strength ::
  "unicode_db \<Rightarrow> transport \<Rightarrow> pystr \<Rightarrow> pystr \<Rightarrow> pystr option \<Rightarrow> error + pystr" where
  "check_password_strength ucd requests_get username password email =
     (case run_rules ucd requests_get username password email of
        Inl e \<Rightarrow> Inl e
      | Inr st \<Rightarrow>
          (let entropy = calculate_entropy ucd password
           in case estimate_crack_time entropy of
                Inl e \<Rightarrow> Inl e
              | Inr crack_time \<Rightarrow>
                  Inr (final_report (score st)
                         (feedback st @ [entropy_line entropy, crack_time_line crack_time]))))"

section \<open>The specification's vocabulary\<close>

text \<open>
  The report of the specification carries a classification; the code carries it as the
  first line of the text it returns.
\<close>

datatype classification = Strong | Moderate | Weak

definition classify :: "int \<Rightarrow> classification" where
  "classify sc = (if 6 \<le> sc then Strong else if 4 \<le> sc \<and> sc < 6 then Moderate else Weak)"

fun marker :: "classification \<Rightarrow> pystr" where
  "marker Strong = [0x2705] @ py_str '' Strong password!'' @ [10]"
| "marker Moderate =
     [0x26A0, 0xFE0F] @ py_str '' Moderate password.'' @ [10] @ py_str '' Consider improving:''
       @ [10]"
| "marker Weak = [0x274C] @ py_str '' Weak password:'' @ [10]"

text \<open>
  The rules as the specification lists them: each one succeeds or fails on its own, a
  success is a point, and a message goes with the failure of every rule but the eighth,
  whose message goes with its success. The outcome of the blacklist check and of the
  breach check are given.
\<close>

definition points :: "bool \<Rightarrow> int" where
  "points ok = (if ok then 1 else 0)"

definition message_if :: "bool \<Rightarrow> pystr \<Rightarrow> pystr list" where
  "message_if cond msg = (if cond then [msg] else [])"

definition is_passphrase :: "unicode_db \<Rightarrow> pystr \<Rightarrow> bool" where
  "is_passphrase ucd password =
     (4 \<le> length (split_ws ucd [] password) \<and>
      list_all (\<lambda>word. 3 < length word) (split_ws ucd [] password))"

definition rule_outcomes ::
  "unicode_db \<Rightarrow> pystr \<Rightarrow> pystr \<Rightarrow> pystr option \<Rightarrow> bool \<Rightarrow> bool \<Rightarrow> bool list" where
  "rule_outcomes ucd username password email blacklisted breached =
     [12 \<le> length password,
      list_ex (\<lambda>c. 65 \<le> c \<and> c \<le> 90) password,
      list_ex (\<lambda>c. 97 \<le> c \<and> c \<le> 122) password,
      list_ex (isdecimal ucd) password,
      list_ex (\<lambda>c. c \<in> set SYMBOLS) password,
      \<not> uses_username_or_email ucd username password email,
      \<not> blacklisted,
      is_passphrase ucd password,
      \<not> breached]"

definition spec_score :: "bool list \<Rightarrow> int" where
  "spec_score outcomes = sum_list (map points outcomes)"

definition spec_feedback :: "bool list \<Rightarrow> pystr list" where
  "spec_feedback outcomes =
     message_if (\<not> outcomes ! 0) MSG_LENGTH @ message_if (\<not> outcomes ! 1) MSG_UPPER @
     message_if (\<not> outcomes ! 2) MSG_LOWER @ message_if (\<not> outcomes ! 3) MSG_NUMBER @
     message_if (\<not> outcomes ! 4) MSG_SPECIAL @ message_if (\<not> outcomes ! 5) MSG_USERNAME @
     message_if (\<not> outcomes ! 6) MSG_BLACKLIST @ message_if (outcomes ! 7) MSG_PASSPHRASE @
     message_if (\<not> outcomes ! 8) MSG_BREACH"

text \<open>
  The alphabet of the specification: every class that occurs in the password counts
  with its full size. The size of the symbol class is a parameter, to compare the
  number the specification gives with the one the code uses.
\<close>

definition spec_alphabet_size :: "nat \<Rightarrow> unicode_db \<Rightarrow> pystr \<Rightarrow> nat" where
  "spec_alphabet_size symbols ucd password =
     (if list_ex (islower ucd) password then 26 else 0) +
     (if list_ex (isupper ucd) password then 26 else 0) +
     (if list_ex (isdigit ucd) password then 10 else 0) +
     (if list_ex (\<lambda>c. c \<in> set SYMBOLS) password then symbols else 0) +
     (if list_ex (isspace ucd) password then 1 else 0)"

definition spec_entropy :: "nat \<Rightarrow> unicode_db \<Rightarrow> pystr \<Rightarrow> pynum" where
  "spec_entropy symbols ucd password =
     (if spec_alphabet_size symbols ucd password = 0 then PyInt 0
      else PyFloat (py_round2 (log 2 (real (spec_alphabet_size symbols ucd password))
                                 * real (length password))))"

text \<open>The five classes of the entropy estimate, and the four that count more than one.\<close>

definition recognized :: "unicode_db \<Rightarrow> pychar \<Rightarrow> bool" where
  "recognized ucd c =
     (islower ucd c \<or> isupper ucd c \<or> isdigit ucd c \<or> c \<in> set SYMBOLS \<or> isspace ucd c)"

definition counted :: "unicode_db \<Rightarrow> pychar \<Rightarrow> bool" where
  "counted ucd c = (islower ucd c \<or> isupper ucd c \<or> isdigit ucd c \<or> c \<in> set SYMBOLS)"

text \<open>A database with no entry beyond ASCII, for concrete inputs written in ASCII.\<close>

definition ascii_ucd :: unicode_db where
  "ascii_ucd =
     \<lparr>uc_islower = (\<lambda>c. False), uc_isupper = (\<lambda>c. False), uc_isdigit = (\<lambda>c. False),
      uc_isdecimal = (\<lambda>c. False), uc_isspace = (\<lambda>c. False), uc_lower = (\<lambda>s i. [s ! i])\<rparr>"

section \<open>Evaluating the digest\<close>

text \<open>
  Words are kept below \<open>2\<^sup>3\<^sup>2\<close> at every step, so that the simplifier computes
  with numerals of bounded size.
\<close>

lemma norm32: "take_bit 32 (x :: w32) = x"
  by (rule take_bit_word_eq_self) simp

lemma sha1_rounds_step:
  "sha1_rounds t (w # ws) (a, b, c, d, e) =
     sha1_rounds (t + 1) ws
       (take_bit 32 (rotl 5 a + sha1_f t b c d + e + sha1_k t + w), a,
        take_bit 32 (rotl 30 b), c, d)"
  by (simp add: norm32)

lemma schedule_numeral:
  "schedule (numeral k) (w0 # rest) =
     w0 # schedule (pred_numeral k)
            (rest @ [take_bit 32 (rotl 1 (rest ! 12 XOR rest ! 7 XOR rest ! 1 XOR w0))])"
  unfolding norm32 by (simp add: numeral_eq_Suc)

lemma replicate_numeral: "replicate (numeral k) x = x # replicate (pred_numeral k) x"
  by (simp add: numeral_eq_Suc)

lemma sha1_blocks_single:
  "sha1_blocks h [w0, w1, w2, w3, w4, w5, w6, w7, w8, w9, w10, w11, w12, w13, w14, w15] =
   sha1_block h [w0, w1, w2, w3, w4, w5, w6, w7, w8, w9, w10, w11, w12, w13, w14, w15]"
  by (simp add: sha1_blocks.simps [of h "[w0, w1, w2, w3, w4, w5, w6, w7, w8, w9, w10, w11, w12, w13, w14, w15]"]
        sha1_blocks.simps [of _ "[]"])

text \<open>The digest of \<open>password\<close>, stage by stage.\<close>

lemma encode_password:
  "encode_utf8 (py_str ''password'') = Inr [0x70, 0x61, 0x73, 0x73, 0x77, 0x6F, 0x72, 0x64]"
  by (simp add: py_str_def is_surrogate_def utf8_char_def)

lemma words_password:
  "be_words (sha1_pad [0x70, 0x61, 0x73, 0x73, 0x77, 0x6F, 0x72, 0x64]) =
     [0x70617373, 0x776F7264, 0x80000000, 0x00000000, 0x00000000, 0x00000000, 0x00000000,
     0x00000000, 0x00000000, 0x00000000, 0x00000000, 0x00000000, 0x00000000, 0x00000000,
     0x00000000, 0x00000040]"
  by (simp add: sha1_pad_def be_bytes64_def replicate_numeral)

lemma schedule_password:
  "schedule 80
     [0x70617373, 0x776F7264, 0x80000000, 0x00000000, 0x00000000, 0x00000000, 0x00000000,
     0x00000000, 0x00000000, 0x00000000, 0x00000000, 0x00000000, 0x00000000, 0x00000000,
     0x00000000, 0x00000040] =
     [0x70617373, 0x776F7264, 0x80000000, 0x00000000, 0x00000000, 0x00000000, 0x00000000,
     0x00000000, 0x00000000, 0x00000000, 0x00000000, 0x00000000, 0x00000000, 0x00000000,
     0x00000000, 0x00000040, 0xE0C2E6E7, 0xEEDEE4C8, 0x00000081, 0xC185CDCF, 0xDDBDC991,
     0x00000102, 0x830B9B9F, 0xBB7B93A3, 0xC185CFCB, 0xDBAAFEAE, 0x76F72645, 0x00000408,
     0x0C2E6E7E, 0xEDEE4E0E, 0xC792F2E0, 0xB31632AA, 0x9952CF47, 0x66C64A92, 0x30B9BBFE,
     0xB1AE0F04, 0x68BCEDC4, 0xCC58CEA2, 0x69655360, 0x76F764C7, 0xC4F1D0D7, 0xA813C6A9,
     0x792F2E04, 0x31632BAB, 0x16276FE6, 0xD71F3805, 0x0D8C8AD8, 0x6A00E633, 0x740B38D7,
     0xE5EE13CE, 0x96553C1A, 0x713DA5B4, 0xE4218519, 0xF7CB5CF5, 0xA24B59B7, 0xA18B8288,
     0x7C3D35E2, 0xBDAB4EF7, 0xB1ADFEE0, 0xD6F907F1, 0x84425DA0, 0xF6F2F847, 0x1A6BD892,
     0x544E55AB, 0xD12392D0, 0x6626403E, 0x2F2E2491, 0x0258D8C1, 0x481D8261, 0x1F380557,
     0x8C8AD80D, 0x00E6376A, 0x0716B90A, 0x03FDA26B, 0x344F6176, 0x4A8B3CFA, 0xAB934A71,
     0x1397939B, 0x1A935D6A, 0x323AD11D]"
  by (simp add: schedule_numeral rotl_def)

lemma rounds_password:
  "sha1_rounds 0
     [0x70617373, 0x776F7264, 0x80000000, 0x00000000, 0x00000000, 0x00000000, 0x00000000,
     0x00000000, 0x00000000, 0x00000000, 0x00000000, 0x00000000, 0x00000000, 0x00000000,
     0x00000000, 0x00000040, 0xE0C2E6E7, 0xEEDEE4C8, 0x00000081, 0xC185CDCF, 0xDDBDC991,
     0x00000102, 0x830B9B9F, 0xBB7B93A3, 0xC185CFCB, 0xDBAAFEAE, 0x76F72645, 0x00000408,
     0x0C2E6E7E, 0xEDEE4E0E, 0xC792F2E0, 0xB31632AA, 0x9952CF47, 0x66C64A92, 0x30B9BBFE,
     0xB1AE0F04, 0x68BCEDC4, 0xCC58CEA2, 0x69655360, 0x76F764C7, 0xC4F1D0D7, 0xA813C6A9,
     0x792F2E04, 0x31632BAB, 0x16276FE6, 0xD71F3805, 0x0D8C8AD8, 0x6A00E633, 0x740B38D7,
     0xE5EE13CE, 0x96553C1A, 0x713DA5B4, 0xE4218519, 0xF7CB5CF5, 0xA24B59B7, 0xA18B8288,
     0x7C3D35E2, 0xBDAB4EF7, 0xB1ADFEE0, 0xD6F907F1, 0x84425DA0, 0xF6F2F847, 0x1A6BD892,
     0x544E55AB, 0xD12392D0, 0x6626403E, 0x2F2E2491, 0x0258D8C1, 0x481D8261, 0x1F380557,
     0x8C8AD80D, 0x00E6376A, 0x0716B90A, 0x03FDA26B, 0x344F6176, 0x4A8B3CFA, 0xAB934A71,
     0x1397939B, 0x1A935D6A, 0x323AD11D]
     (0x67452301, 0xEFCDAB89, 0x98BADCFE, 0x10325476, 0xC3D2E1F0) =
     (0xF4653EE3, 0xD9EB93B6, 0x6DC7480D, 0x5CC5DEA5, 0xBB13ADE8)"
  by (simp add: sha1_rounds_step rotl_def sha1_f_def sha1_k_def del: sha1_rounds.simps(2))

lemma sha1_password:
  "hashlib_sha1 [0x70, 0x61, 0x73, 0x73, 0x77, 0x6F, 0x72, 0x64] =
     [0x5BAA61E4, 0xC9B93F3F, 0x0682250B, 0x6CF8331B, 0x7EE68FD8]"
  unfolding hashlib_sha1_def words_password sha1_blocks_single sha1_block_def
    schedule_password rounds_password
  by simp

lemma hex_password:
  "ascii_upper (hexdigest [0x5BAA61E4, 0xC9B93F3F, 0x0682250B, 0x6CF8331B, 0x7EE68FD8]) =
     py_str ''5BAA61E4C9B93F3F0682250B6CF8331B7EE68FD8''"
  by (simp add: ascii_upper_def hexdigest_def hex_word_def hex_digit_def py_str_def)

lemma sha1_hex_upper_password:
  "sha1_hex_upper (py_str ''password'') =
     Inr (py_str ''5BAA61E4C9B93F3F0682250B6CF8331B7EE68FD8'')"
  by (simp add: sha1_hex_upper_def encode_password sha1_password hex_password)

text \<open>
  Further digests, each in one step: the test vector \<open>abc\<close> of FIPS 180, the other
  entry of the blacklist, and two passwords that are not in it.
\<close>

lemma sha1_abc:
  "hashlib_sha1 [0x61, 0x62, 0x63] =
     [0xA9993E36, 0x4706816A, 0xBA3E2571, 0x7850C26C, 0x9CD0D89D]"
  by (simp add: hashlib_sha1_def sha1_pad_def be_bytes64_def replicate_numeral
        sha1_blocks_single sha1_block_def schedule_numeral sha1_rounds_step rotl_def
        sha1_f_def sha1_k_def del: sha1_rounds.simps(2))

lemma sha1_hex_upper_abc:
  "sha1_hex_upper (py_str ''abc'') =
     Inr (py_str ''A9993E364706816ABA3E25717850C26C9CD0D89D'')"
  by (simp add: sha1_hex_upper_def sha1_abc py_str_def is_surrogate_def utf8_char_def
        ascii_upper_def hexdigest_def hex_word_def hex_digit_def)

lemma sha1_123456:
  "hashlib_sha1 [0x31, 0x32, 0x33, 0x34, 0x35, 0x36] =
     [0x7C4A8D09, 0xCA3762AF, 0x61E59520, 0x943DC264, 0x94F8941B]"
  by (simp add: hashlib_sha1_def sha1_pad_def be_bytes64_def replicate_numeral
        sha1_blocks_single sha1_block_def schedule_numeral sha1_rounds_step rotl_def
        sha1_f_def sha1_k_def del: sha1_rounds.simps(2))

lemma sha1_hex_upper_123456:
  "sha1_hex_upper (py_str ''123456'') =
     Inr (py_str ''7C4A8D09CA3762AF61E59520943DC26494F8941B'')"
  by (simp add: sha1_hex_upper_def sha1_123456 py_str_def is_surrogate_def utf8_char_def
        ascii_upper_def hexdigest_def hex_word_def hex_digit_def)

lemma sha1_hello:
  "hashlib_sha1 [0x68, 0x65, 0x6C, 0x6C, 0x6F] =
     [0xAAF4C61D, 0xDCC5E8A2, 0xDABEDE0F, 0x3B482CD9, 0xAEA9434D]"
  by (simp add: hashlib_sha1_def sha1_pad_def be_bytes64_def replicate_numeral
        sha1_blocks_single sha1_block_def schedule_numeral sha1_rounds_step rotl_def
        sha1_f_def sha1_k_def del: sha1_rounds.simps(2))

lemma sha1_hex_upper_hello:
  "sha1_hex_upper (py_str ''hello'') =
     Inr (py_str ''AAF4C61DDCC5E8A2DABEDE0F3B482CD9AEA9434D'')"
  by (simp add: sha1_hex_upper_def sha1_hello py_str_def is_surrogate_def utf8_char_def
        ascii_upper_def hexdigest_def hex_word_def hex_digit_def)

lemma sha1_empty:
  "hashlib_sha1 [] =
     [0xDA39A3EE, 0x5E6B4B0D, 0x3255BFEF, 0x95601890, 0xAFD80709]"
  by (simp add: hashlib_sha1_def sha1_pad_def be_bytes64_def replicate_numeral
        sha1_blocks_single sha1_block_def schedule_numeral sha1_rounds_step rotl_def
        sha1_f_def sha1_k_def del: sha1_rounds.simps(2))

lemma sha1_hex_upper_empty:
  "sha1_hex_upper ([]) =
     Inr (py_str ''DA39A3EE5E6B4B0D3255BFEF95601890AFD80709'')"
  by (simp add: sha1_hex_upper_def sha1_empty py_str_def is_surrogate_def utf8_char_def
        ascii_upper_def hexdigest_def hex_word_def hex_digit_def)

lemma sha1_hex_upper_surrogate: "sha1_hex_upper [0xD800] = Inl UnicodeEncodeError"
  by (simp add: sha1_hex_upper_def is_surrogate_def)

section \<open>Blacklist check\<close>

lemma digests_differ:
  "py_str ''AAF4C61DDCC5E8A2DABEDE0F3B482CD9AEA9434D'' \<noteq>
     py_str ''5BAA61E4C9B93F3F0682250B6CF8331B7EE68FD8'' \<and>
   py_str ''AAF4C61DDCC5E8A2DABEDE0F3B482CD9AEA9434D'' \<noteq>
     py_str ''7C4A8D09CA3762AF61E59520943DC26494F8941B'' \<and>
   py_str ''DA39A3EE5E6B4B0D3255BFEF95601890AFD80709'' \<noteq>
     py_str ''5BAA61E4C9B93F3F0682250B6CF8331B7EE68FD8'' \<and>
   py_str ''DA39A3EE5E6B4B0D3255BFEF95601890AFD80709'' \<noteq>
     py_str ''7C4A8D09CA3762AF61E59520943DC26494F8941B''"
  by (simp add: py_str_def)

text \<open>
  C9. The blacklist check depends on the password alone: it is the membership of the
  upper-case hexadecimal SHA-1 digest of the password in the set of the two digests
  written in the source. The digest is SHA-1: it gives the FIPS test vector for \<open>abc\<close>,
  and the two entries of the set are the digests of \<open>password\<close> and \<open>123456\<close>. So the
  check answers true for \<open>password\<close> and for \<open>123456\<close>, and false for \<open>hello\<close> and
  for the empty password. A password that cannot be encoded (a lone surrogate) raises
  instead of being answered.
\<close>

theorem blacklist_is_digest_membership:
  "is_in_hashed_blacklist password =
     (case sha1_hex_upper password of
        Inl e \<Rightarrow> Inl e
      | Inr d \<Rightarrow>
          Inr (d = py_str ''5BAA61E4C9B93F3F0682250B6CF8331B7EE68FD8'' \<or>
               d = py_str ''7C4A8D09CA3762AF61E59520943DC26494F8941B''))
   \<and> sha1_hex_upper (py_str ''abc'') = Inr (py_str ''A9993E364706816ABA3E25717850C26C9CD0D89D'')
   \<and> sha1_hex_upper (py_str ''password'') = Inr (py_str ''5BAA61E4C9B93F3F0682250B6CF8331B7EE68FD8'')
   \<and> sha1_hex_upper (py_str ''123456'') = Inr (py_str ''7C4A8D09CA3762AF61E59520943DC26494F8941B'')
   \<and> is_in_hashed_blacklist (py_str ''password'') = Inr True
   \<and> is_in_hashed_blacklist (py_str ''123456'') = Inr True
   \<and> is_in_hashed_blacklist (py_str ''hello'') = Inr False
   \<and> is_in_hashed_blacklist [] = Inr False
   \<and> is_in_hashed_blacklist [0xD800] = Inl UnicodeEncodeError"
proof (intro conjI)
  show "is_in_hashed_blacklist password =
     (case sha1_hex_upper password of
        Inl e \<Rightarrow> Inl e
      | Inr d \<Rightarrow>
          Inr (d = py_str ''5BAA61E4C9B93F3F0682250B6CF8331B7EE68FD8'' \<or>
               d = py_str ''7C4A8D09CA3762AF61E59520943DC26494F8941B''))"
    by (simp add: is_in_hashed_blacklist_def HASHED_BLACKLIST_def split: sum.splits)
  show "sha1_hex_upper (py_str ''abc'') = Inr (py_str ''A9993E364706816ABA3E25717850C26C9CD0D89D'')"
    by (rule sha1_hex_upper_abc)
  show "sha1_hex_upper (py_str ''password'') = Inr (py_str ''5BAA61E4C9B93F3F0682250B6CF8331B7EE68FD8'')"
    by (rule sha1_hex_upper_password)
  show "sha1_hex_upper (py_str ''123456'') = Inr (py_str ''7C4A8D09CA3762AF61E59520943DC26494F8941B'')"
    by (rule sha1_hex_upper_123456)
  show "is_in_hashed_blacklist (py_str ''password'') = Inr True"
    by (simp add: is_in_hashed_blacklist_def HASHED_BLACKLIST_def sha1_hex_upper_password)
  show "is_in_hashed_blacklist (py_str ''123456'') = Inr True"
    by (simp add: is_in_hashed_blacklist_def HASHED_BLACKLIST_def sha1_hex_upper_123456)
  show "is_in_hashed_blacklist (py_str ''hello'') = Inr False"
    using digests_differ
    by (simp add: is_in_hashed_blacklist_def HASHED_BLACKLIST_def sha1_hex_upper_hello)
  show "is_in_hashed_blacklist [] = Inr False"
    using digests_differ
    by (simp add: is_in_hashed_blacklist_def HASHED_BLACKLIST_def sha1_hex_upper_empty)
  show "is_in_hashed_blacklist [0xD800] = Inl UnicodeEncodeError"
    by (simp add: is_in_hashed_blacklist_def sha1_hex_upper_surrogate)
qed

section \<open>Breach check\<close>

lemma breach_check_non_success:
  assumes "sha1_hex_upper password = Inr h" and "status \<noteq> 200"
  shows "is_password_breached (\<lambda>url. Response status text) password = Inr False"
  using assms by (simp add: is_password_breached_def)

lemma breach_check_network_error:
  assumes "sha1_hex_upper password = Inr h"
  shows "is_password_breached (\<lambda>url. Raises) password = Inl RequestException"
  using assms by (simp add: is_password_breached_def)

lemma splitlines_malformed: "splitlines (py_str ''malformed'') = [py_str ''malformed'']"
  by (simp add: splitlines_def py_str_def is_linebreak_def)

lemma split_malformed: "split_on 58 [] (py_str ''malformed'') = [py_str ''malformed'']"
  by (simp add: py_str_def)

text \<open>
  C1. The lookup fails open only on a status other than 200. When the request itself
  fails, the exception of \<open>requests.get\<close> leaves the function; when a line of a 200
  response has no colon, unpacking it raises \<open>ValueError\<close>. Shown for the password
  \<open>password\<close>.
\<close>

theorem breach_check_raises_when_lookup_fails:
  "is_password_breached (\<lambda>url. Raises) (py_str ''password'') = Inl RequestException \<and>
   is_password_breached (\<lambda>url. Response 200 (py_str ''malformed'')) (py_str ''password'')
     = Inl ValueError"
  by (simp add: is_password_breached_def sha1_hex_upper_password splitlines_malformed
        split_malformed)

section \<open>Rule 6: username and email\<close>

lemma startswith_prefix: "startswith needle s = prefix needle s"
  by (induction needle s rule: startswith.induct) simp_all

lemma py_in_sublist: "py_in needle s = sublist needle s"
  by (induction s) (simp_all add: startswith_prefix sublist_Cons_right)

lemma lower_empty: "lower ucd [] = []"
  by (simp add: lower_def)


lemma lower_from_ascii:
  "list_all (\<lambda>c. c < 128) cs \<Longrightarrow>
   lower_from ucd s i cs = map (\<lambda>c. if 65 \<le> c \<and> c \<le> 90 then c + 32 else c) cs"
  by (induction cs arbitrary: i) simp_all

text \<open>
  C10. With the empty username rule 6 fails for every password and every email: the empty
  string is part of every string, so no point is added and the message is appended.
\<close>

theorem empty_username_fails_rule6:
  "rule6 ucd [] password email st = append_feedback MSG_USERNAME st \<and>
   score (rule6 ucd [] password email st) = score st \<and>
   feedback (rule6 ucd [] password email st) = feedback st @ [MSG_USERNAME]"
  by (simp add: rule6_def uses_username_or_email_def lower_empty py_in_sublist
        append_feedback_def)

lemma lower_alice: "lower ucd (py_str ''alice'') = py_str ''alice''"
  by (simp add: lower_def py_str_def)


lemma lower_alice_email: "lower ucd (py_str ''alice@x.com'') = py_str ''alice@x.com''"
  by (simp add: lower_def py_str_def)


section \<open>Entropy\<close>

lemma py_round_of_int: "py_round (real_of_int n) = n"
  by (simp add: py_round_def)

lemma py_round_ge_floor: "\<lfloor>x\<rfloor> \<le> py_round x"
  by (simp add: py_round_def Let_def)

lemma py_round_le_floor1: "py_round x \<le> \<lfloor>x\<rfloor> + 1"
  by (simp add: py_round_def Let_def)

lemma py_round_lower: "real_of_int n \<le> x \<Longrightarrow> n \<le> py_round x"
proof -
  assume "real_of_int n \<le> x"
  then have "n \<le> \<lfloor>x\<rfloor>" by (simp add: le_floor_iff)
  with py_round_ge_floor [of x] show ?thesis by linarith
qed

lemma py_round_upper: "x \<le> real_of_int n \<Longrightarrow> py_round x \<le> n"
proof (cases "x = real_of_int n")
  case True
  then show ?thesis by (simp add: py_round_of_int)
next
  case False
  assume "x \<le> real_of_int n"
  with False have "x < real_of_int n" by simp
  then have "\<lfloor>x\<rfloor> < n" by (simp add: floor_less_iff)
  with py_round_le_floor1 [of x] show ?thesis by linarith
qed

lemma py_round2_lower: "real_of_int n / 100 \<le> x \<Longrightarrow> real_of_int n / 100 \<le> py_round2 x"
  using py_round_lower [of n "x * 100"] by (simp add: py_round2_def divide_right_mono)

lemma py_round2_upper: "x \<le> real_of_int n / 100 \<Longrightarrow> py_round2 x \<le> real_of_int n / 100"
  using py_round_upper [of "x * 100" n] by (simp add: py_round2_def divide_right_mono)

lemma py_round2_zero: "py_round2 0 = 0"
  by (simp add: py_round2_def py_round_def)

lemma length_SYMBOLS: "length SYMBOLS = 20"
  by (simp add: SYMBOLS_def py_str_def)

lemma possible_characters_spec:
  "possible_characters ucd password = spec_alphabet_size 20 ucd password"
  by (simp add: possible_characters_def spec_alphabet_size_def length_SYMBOLS Let_def)

text \<open>
  What the code computes: the symbol class counts with the length of the symbol string,
  which has twenty characters, all different.
\<close>

lemma entropy_formula:
  "calculate_entropy ucd password = spec_entropy (length SYMBOLS) ucd password \<and>
   length SYMBOLS = 20 \<and> distinct SYMBOLS"
  by (simp add: calculate_entropy_def spec_entropy_def possible_characters_spec length_SYMBOLS)
     (simp add: SYMBOLS_def py_str_def)

lemma log2_le_ratio:
  assumes "0 < x" and "x ^ q \<le> 2 ^ p" and "0 < q"
  shows "log 2 x \<le> real p / real q"
proof -
  have "log 2 (x ^ q) \<le> log 2 (2 ^ p)"
    using assms by (subst log_le_cancel_iff) simp_all
  then have "real q * log 2 x \<le> real p"
    using assms by (simp only: log_nat_power [of x] log_nat_power [of 2]) simp
  then show ?thesis
    using assms by (simp add: pos_le_divide_eq mult.commute)
qed

lemma log2_ge_ratio:
  assumes "0 < x" and "2 ^ p \<le> x ^ q" and "0 < q"
  shows "real p / real q \<le> log 2 x"
proof -
  have "log 2 (2 ^ p) \<le> log 2 (x ^ q)"
    using assms by (subst log_le_cancel_iff) simp_all
  then have "real p \<le> real q * log 2 x"
    using assms by (simp only: log_nat_power [of x] log_nat_power [of 2]) simp
  then show ?thesis
    using assms by (simp add: pos_divide_le_eq mult.commute)
qed

lemma log2_20_upper: "log 2 20 \<le> 435 / 100"
  using log2_le_ratio [of 20 20 87] by simp

lemma log2_21_lower: "436 / 100 \<le> log 2 21"
  using log2_ge_ratio [of 21 109 25] by simp

lemma possible_characters_bang: "possible_characters ascii_ucd (py_str ''!'') = 20"
  by (simp add: possible_characters_spec spec_alphabet_size_def py_str_def islower_def
        isupper_def isdigit_def isspace_def SYMBOLS_def)

lemma spec_alphabet_21_bang: "spec_alphabet_size 21 ascii_ucd (py_str ''!'') = 21"
  by (simp add: spec_alphabet_size_def py_str_def islower_def
        isupper_def isdigit_def isspace_def SYMBOLS_def)

text \<open>
  C3. The entropy is \<open>log\<^sub>2\<close> of the alphabet size times the length, rounded to two
  decimals, and the classes count 26, 26, 10 and 1 as the claim says. The symbol class,
  however, counts 20 where the claim, and the comment on that line of the source, say
  21. For the password \<open>!\<close> the alphabet size is 20 and the code returns \<open>log\<^sub>2 20\<close>
  rounded, at most 4.35; with 21 symbols it would be \<open>log\<^sub>2 21\<close> rounded, at least 4.36.
\<close>

theorem entropy_symbol_class_contributes_20:
  "possible_characters ascii_ucd (py_str ''!'') = 20 \<and>
   calculate_entropy ascii_ucd (py_str ''!'') = PyFloat (py_round2 (log 2 20)) \<and>
   calculate_entropy ascii_ucd (py_str ''!'') \<noteq> spec_entropy 21 ascii_ucd (py_str ''!'')"
proof -
  have "py_round2 (log 2 20) \<le> 435 / 100"
    using py_round2_upper [of "log 2 20" 435] log2_20_upper by simp
  moreover have "436 / 100 \<le> py_round2 (log 2 21)"
    using py_round2_lower [of 436 "log 2 21"] log2_21_lower by simp
  ultimately have "py_round2 (log 2 20) \<noteq> py_round2 (log 2 21)"
    by linarith
  moreover have "length (py_str ''!'') = 1"
    by (simp add: py_str_def)
  ultimately show ?thesis
    by (simp add: calculate_entropy_def spec_entropy_def possible_characters_bang
          spec_alphabet_21_bang)
qed

lemma list_ex_counted:
  "list_ex (counted ucd) p =
     (list_ex (islower ucd) p \<or> list_ex (isupper ucd) p \<or> list_ex (isdigit ucd) p \<or>
      list_ex (\<lambda>c. c \<in> set SYMBOLS) p)"
  by (auto simp: list_ex_iff counted_def)

lemma possible_characters_counted:
  "list_ex (counted ucd) p \<Longrightarrow> 10 \<le> possible_characters ucd p"
  by (auto simp: list_ex_counted possible_characters_spec spec_alphabet_size_def)

lemma possible_characters_uncounted:
  "\<not> list_ex (counted ucd) p \<Longrightarrow> possible_characters ucd p \<le> 1"
  by (simp add: list_ex_counted possible_characters_spec spec_alphabet_size_def)

lemma list_ex_nonempty: "list_ex P p \<Longrightarrow> 1 \<le> length p"
  by (cases p) simp_all

lemma log2_10_lower: "3 \<le> log 2 10"
  using log2_ge_ratio [of 10 3 1] by simp

lemma entropy_counted_positive:
  assumes "list_ex (counted ucd) p"
  shows "3 \<le> num_val (calculate_entropy ucd p)"
proof -
  let ?A = "possible_characters ucd p"
  have A: "10 \<le> ?A" using assms by (rule possible_characters_counted)
  have L: "1 \<le> real (length p)" using list_ex_nonempty [OF assms] by simp
  have "log 2 10 \<le> log 2 (real ?A)"
    using A by (subst log_le_cancel_iff) simp_all
  with log2_10_lower have "3 \<le> log 2 (real ?A)" by linarith
  then have "3 * 1 \<le> log 2 (real ?A) * real (length p)"
    using L by (intro mult_mono) simp_all
  then have "real_of_int 300 / 100 \<le> log 2 (real ?A) * real (length p)" by simp
  then have "real_of_int 300 / 100 \<le> py_round2 (log 2 (real ?A) * real (length p))"
    by (rule py_round2_lower)
  with A show ?thesis by (simp add: calculate_entropy_def)
qed

lemma entropy_uncounted_zero:
  assumes "\<not> list_ex (counted ucd) p"
  shows "num_val (calculate_entropy ucd p) = 0"
proof -
  have "possible_characters ucd p = 0 \<or> possible_characters ucd p = 1"
    using possible_characters_uncounted [OF assms] by linarith
  then show ?thesis
    by (auto simp: calculate_entropy_def py_round2_zero)
qed

text \<open>
  C4, as amended. The entropy is never negative, and it is 0 exactly when the password
  has no lower-case letter, no upper-case letter, no digit and no symbol of the set: when
  it is empty or made of whitespace and of characters outside the five classes only.
\<close>

theorem entropy_zero_iff:
  "0 \<le> num_val (calculate_entropy ucd password) \<and>
   (num_val (calculate_entropy ucd password) = 0) = (\<not> list_ex (counted ucd) password)"
proof (cases "list_ex (counted ucd) password")
  case True
  with entropy_counted_positive [OF True] show ?thesis by simp
next
  case False
  with entropy_uncounted_zero [OF False] show ?thesis by simp
qed

text \<open>
  C4 as stated fails for the password of one space: whitespace is one of the five
  classes, the alphabet size is 1, and \<open>log\<^sub>2 1\<close> is 0.
\<close>

theorem entropy_whitespace_counterexample:
  "\<not> ((num_val (calculate_entropy ascii_ucd [32]) = 0) =
       ([32] = [] \<or> \<not> list_ex (recognized ascii_ucd) [32]))"
proof -
  have "\<not> list_ex (counted ascii_ucd) [32]"
    by (simp add: counted_def islower_def isupper_def isdigit_def SYMBOLS_def py_str_def)
  then have "num_val (calculate_entropy ascii_ucd [32]) = 0"
    by (rule entropy_uncounted_zero)
  moreover have "list_ex (recognized ascii_ucd) [32]"
    by (simp add: recognized_def isspace_def)
  ultimately show ?thesis by simp
qed

theorem entropy_zero_iff_witness:
  "num_val (calculate_entropy ascii_ucd [32]) = 0 \<and> \<not> list_ex (counted ascii_ucd) [32]"
  using entropy_zero_iff [of ascii_ucd "[32]"]
  by (simp add: counted_def islower_def isupper_def isdigit_def SYMBOLS_def py_str_def)

section \<open>Crack time\<close>


lemma estimate_crack_time_zero:
  "estimate_crack_time (PyInt 0) = Inr (py_str ''less than 1 second'')"
  by (simp add: estimate_crack_time_def crack_time_text_def)

text \<open>
  C5. Below 1024 the entropy is mapped through the thresholds of \<open>crack_time_text\<close>
  (lemma \<open>estimate_crack_time_below\<close>), and entropy 0 gives \<open>less than 1 second\<close>.
  From 1024 on the power \<open>2 ** entropy\<close> does not fit a double: the function raises
  \<open>OverflowError\<close> and never reaches \<open>centuries or more\<close>.
\<close>

theorem estimate_crack_time_overflows:
  "estimate_crack_time (PyFloat 1024) = Inl OverflowError"
  by (simp add: estimate_crack_time_def)

section \<open>The nine rules\<close>

lemma rule1_outcome:
  "rule1 p st =
     \<lparr>score = score st + points (12 \<le> length p),
      feedback = feedback st @ message_if (\<not> 12 \<le> length p) MSG_LENGTH\<rparr>"
  by (simp add: rule1_def add_point_def append_feedback_def points_def message_if_def)

lemma rule2_outcome:
  "rule2 p st =
     \<lparr>score = score st + points (list_ex (\<lambda>c. 65 \<le> c \<and> c \<le> 90) p),
      feedback = feedback st @ message_if (\<not> list_ex (\<lambda>c. 65 \<le> c \<and> c \<le> 90) p) MSG_UPPER\<rparr>"
  by (simp add: rule2_def add_point_def append_feedback_def points_def message_if_def)

lemma rule3_outcome:
  "rule3 p st =
     \<lparr>score = score st + points (list_ex (\<lambda>c. 97 \<le> c \<and> c \<le> 122) p),
      feedback = feedback st @ message_if (\<not> list_ex (\<lambda>c. 97 \<le> c \<and> c \<le> 122) p) MSG_LOWER\<rparr>"
  by (simp add: rule3_def add_point_def append_feedback_def points_def message_if_def)

lemma rule4_outcome:
  "rule4 ucd p st =
     \<lparr>score = score st + points (list_ex (isdecimal ucd) p),
      feedback = feedback st @ message_if (\<not> list_ex (isdecimal ucd) p) MSG_NUMBER\<rparr>"
  by (simp add: rule4_def add_point_def append_feedback_def points_def message_if_def)

lemma rule5_outcome:
  "rule5 p st =
     \<lparr>score = score st + points (list_ex (\<lambda>c. c \<in> set SYMBOLS) p),
      feedback = feedback st @ message_if (\<not> list_ex (\<lambda>c. c \<in> set SYMBOLS) p) MSG_SPECIAL\<rparr>"
  by (simp add: rule5_def add_point_def append_feedback_def points_def message_if_def)

lemma rule6_outcome:
  "rule6 ucd u p e st =
     \<lparr>score = score st + points (\<not> uses_username_or_email ucd u p e),
      feedback = feedback st @ message_if (\<not> \<not> uses_username_or_email ucd u p e) MSG_USERNAME\<rparr>"
  by (simp add: rule6_def add_point_def append_feedback_def points_def message_if_def)

lemma rule7_outcome:
  "is_in_hashed_blacklist p = Inr blacklisted \<Longrightarrow>
   rule7 p st =
     Inr \<lparr>score = score st + points (\<not> blacklisted),
          feedback = feedback st @ message_if (\<not> \<not> blacklisted) MSG_BLACKLIST\<rparr>"
  by (simp add: rule7_def add_point_def append_feedback_def points_def message_if_def)

lemma rule8_outcome:
  "rule8 ucd p st =
     \<lparr>score = score st + points (is_passphrase ucd p),
      feedback = feedback st @ message_if (is_passphrase ucd p) MSG_PASSPHRASE\<rparr>"
  by (simp add: rule8_def is_passphrase_def add_point_def append_feedback_def points_def
        message_if_def)

lemma rule9_outcome:
  "is_password_breached net p = Inr breached \<Longrightarrow>
   rule9 net p st =
     Inr \<lparr>score = score st + points (\<not> breached),
          feedback = feedback st @ message_if (\<not> \<not> breached) MSG_BREACH\<rparr>"
  by (simp add: rule9_def add_point_def append_feedback_def points_def message_if_def)

lemma run_rules_outcome:
  assumes "is_in_hashed_blacklist p = Inr blacklisted"
    and "is_password_breached net p = Inr breached"
  shows "run_rules ucd net u p e =
           Inr \<lparr>score = spec_score (rule_outcomes ucd u p e blacklisted breached),
                feedback = spec_feedback (rule_outcomes ucd u p e blacklisted breached)\<rparr>"
  unfolding run_rules_def Let_def rule1_outcome rule2_outcome rule3_outcome rule4_outcome
    rule5_outcome rule6_outcome rule8_outcome
  by (simp add: rule7_outcome [OF assms(1)] rule9_outcome [OF assms(2)] spec_score_def
        spec_feedback_def rule_outcomes_def)

lemma run_rules_returns:
  assumes "run_rules ucd net u p e = Inr st"
  obtains blacklisted breached where "is_in_hashed_blacklist p = Inr blacklisted"
    and "is_password_breached net p = Inr breached"
  using assms
  by (auto simp: run_rules_def Let_def rule7_def rule9_def split: sum.splits)

lemma points_range: "0 \<le> points ok \<and> points ok \<le> 1"
  by (simp add: points_def)

lemma spec_score_range:
  "0 \<le> spec_score (rule_outcomes ucd u p e blacklisted breached) \<and>
   spec_score (rule_outcomes ucd u p e blacklisted breached) \<le> 9"
  by (simp add: spec_score_def rule_outcomes_def points_def)

lemma final_report_marker: "final_report sc fb = marker (classify sc) @ join [10] fb"
  by (simp add: final_report_def classify_def)

text \<open>
  C2. Whenever the nine rules have run, the score lies between 0 and 9, and the first
  line of the report is the marker of the class that the thresholds give: Strong from 6
  on, Moderate for 4 and 5, Weak below 4. Every score is in exactly one class.
\<close>

theorem score_range_and_classification:
  assumes "run_rules ucd requests_get username password email = Inr st"
  shows "0 \<le> score st \<and> score st \<le> 9 \<and>
         final_report (score st) fb = marker (classify (score st)) @ join [10] fb \<and>
         (classify (score st) = Strong) = (6 \<le> score st) \<and>
         (classify (score st) = Moderate) = (4 \<le> score st \<and> score st < 6) \<and>
         (classify (score st) = Weak) = (score st < 4)"
proof -
  obtain blacklisted breached where
    bl: "is_in_hashed_blacklist password = Inr blacklisted" and
    br: "is_password_breached requests_get password = Inr breached"
    using assms by (rule run_rules_returns)
  have "score st = spec_score (rule_outcomes ucd username password email blacklisted breached)"
    using run_rules_outcome [OF bl br, of ucd username email] assms by simp
  then have "0 \<le> score st \<and> score st \<le> 9"
    using spec_score_range [of ucd username password email blacklisted breached] by simp
  then show ?thesis
    by (simp add: final_report_marker) (simp add: classify_def)
qed

lemma report_of_outcomes:
  assumes "is_in_hashed_blacklist password = Inr blacklisted"
    and "is_password_breached requests_get password = Inr breached"
    and "estimate_crack_time (calculate_entropy ucd password) = Inr crack_time"
  shows "check_password_strength ucd requests_get username password email =
           Inr (marker (classify (spec_score
                    (rule_outcomes ucd username password email blacklisted breached))) @
                join [10]
                  (spec_feedback (rule_outcomes ucd username password email blacklisted breached)
                   @ [entropy_line (calculate_entropy ucd password),
                      crack_time_line crack_time]))"
  by (simp add: check_password_strength_def run_rules_outcome [OF assms(1) assms(2)] assms(3)
        final_report_marker)


text \<open>A run on concrete input: user \<open>alice\<close>, password \<open>password\<close>, status 404.\<close>

lemma password_blacklisted: "is_in_hashed_blacklist (py_str ''password'') = Inr True"
  by (simp add: is_in_hashed_blacklist_def HASHED_BLACKLIST_def sha1_hex_upper_password)

lemma password_not_breached_404:
  "is_password_breached (\<lambda>url. Response 404 []) (py_str ''password'') = Inr False"
  by (rule breach_check_non_success [OF sha1_hex_upper_password]) simp

lemma lower_password: "lower ucd (py_str ''password'') = py_str ''password''"
  by (simp add: lower_def py_str_def)

lemma outcomes_password:
  "rule_outcomes ascii_ucd (py_str ''alice'') (py_str ''password'') None True False =
     [False, False, True, False, False, True, False, False, True]"
  by (simp add: rule_outcomes_def uses_username_or_email_def lower_password lower_alice
        is_passphrase_def)
     (simp add: py_str_def isdecimal_def isspace_def SYMBOLS_def)

lemma run_rules_password:
  "run_rules ascii_ucd (\<lambda>url. Response 404 []) (py_str ''alice'') (py_str ''password'') None =
     Inr \<lparr>score = 3,
          feedback = [MSG_LENGTH, MSG_UPPER, MSG_NUMBER, MSG_SPECIAL, MSG_BLACKLIST]\<rparr>"
  by (simp add: run_rules_outcome [OF password_blacklisted password_not_breached_404]
        outcomes_password spec_score_def spec_feedback_def points_def message_if_def)

theorem score_range_and_classification_witness:
  "run_rules ascii_ucd (\<lambda>url. Response 404 []) (py_str ''alice'') (py_str ''password'') None =
     Inr \<lparr>score = 3,
          feedback = [MSG_LENGTH, MSG_UPPER, MSG_NUMBER, MSG_SPECIAL, MSG_BLACKLIST]\<rparr> \<and>
   (0::int) \<le> 3 \<and> (3::int) \<le> 9 \<and> classify 3 = Weak"
  using score_range_and_classification [OF run_rules_password] run_rules_password
  by simp




section \<open>Rule 6 in the evaluation\<close>






section \<open>The empty password\<close>

lemma blacklist_check_empty: "\<exists>b. is_in_hashed_blacklist [] = Inr b"
  by (simp add: is_in_hashed_blacklist_def sha1_hex_upper_def)

lemma entropy_empty: "calculate_entropy ucd [] = PyInt 0"
  by (simp add: calculate_entropy_def possible_characters_def)

lemma empty_password_weak:
  assumes "is_password_breached requests_get [] = Inr breached"
  shows "\<exists>fb. check_password_strength ucd requests_get username [] email =
           Inr (marker Weak @
                join [10]
                  ([MSG_LENGTH, MSG_UPPER, MSG_LOWER, MSG_NUMBER, MSG_SPECIAL] @ fb @
                   [entropy_line (PyInt 0), crack_time_line (py_str ''less than 1 second'')]))"
proof -
  obtain blacklisted where bl: "is_in_hashed_blacklist [] = Inr blacklisted"
    using blacklist_check_empty by blast
  let ?os = "rule_outcomes ucd username [] email blacklisted breached"
  let ?rest = "message_if (uses_username_or_email ucd username [] email) MSG_USERNAME @
               message_if blacklisted MSG_BLACKLIST @ message_if breached MSG_BREACH"
  have os: "?os = [False, False, False, False, False,
                   \<not> uses_username_or_email ucd username [] email, \<not> blacklisted, False,
                   \<not> breached]"
    by (simp add: rule_outcomes_def is_passphrase_def)
  have "spec_score ?os \<le> 3"
    by (simp add: os spec_score_def points_def)
  then have weak: "classify (spec_score ?os) = Weak"
    by (simp add: classify_def)
  have fb: "spec_feedback ?os =
              [MSG_LENGTH, MSG_UPPER, MSG_LOWER, MSG_NUMBER, MSG_SPECIAL] @ ?rest"
    by (simp add: os spec_feedback_def message_if_def)
  have "check_password_strength ucd requests_get username [] email =
          Inr (marker Weak @
               join [10]
                 (spec_feedback ?os @
                  [entropy_line (PyInt 0), crack_time_line (py_str ''less than 1 second'')]))"
    using report_of_outcomes [OF bl assms, of ucd "py_str ''less than 1 second''" username email]
    by (simp add: entropy_empty estimate_crack_time_zero weak)
  then have "check_password_strength ucd requests_get username [] email =
          Inr (marker Weak @
               join [10]
                 ([MSG_LENGTH, MSG_UPPER, MSG_LOWER, MSG_NUMBER, MSG_SPECIAL] @ ?rest @
                  [entropy_line (PyInt 0), crack_time_line (py_str ''less than 1 second'')]))"
    by (simp only: fb append_assoc)
  then show ?thesis
    by (rule exI [of _ ?rest])
qed

text \<open>
  C8. For the empty password the entropy is the integer 0, the length rule and the four
  character-class rules fail and the class is Weak whenever the breach check returns
  (lemma \<open>empty_password_weak\<close>). When the request of the breach check fails, however,
  the evaluation of the empty password raises.
\<close>

theorem empty_password_raises_when_network_fails:
  "check_password_strength ucd (\<lambda>url. Raises) username [] email = Inl RequestException"
proof -
  obtain h where h: "sha1_hex_upper [] = Inr h"
    by (simp add: sha1_hex_upper_def)
  have "is_password_breached (\<lambda>url. Raises) [] = Inl RequestException"
    using h by (rule breach_check_network_error)
  then show ?thesis
    by (simp add: check_password_strength_def run_rules_def Let_def rule7_def rule9_def
          is_in_hashed_blacklist_def h)
qed

end
